theory Spec2Isabelle
  imports Complex_Main
begin

section \<open>Numbers, errors and the external libraries\<close>

text \<open>
  The theory embeds \<^verbatim>\<open>utils.py\<close>: \<^verbatim>\<open>generate_subtitles\<close>, \<^verbatim>\<open>save_clip\<close> and
  \<^verbatim>\<open>apply_filter\<close>.

  Numbers. Pixel sizes and millisecond offsets are Python integers (\<open>int\<close>, \<open>nat\<close>
  for a length). Times in seconds and aspect ratios are Python floats (binary64); a float is
  embedded as the real number it denotes.
  \<^item> The subtractions of the subtitle re-timing are rounded as binary64 rounds them
    (\<open>fsub\<close> below): their rounding decides whether a caption's range can be empty.
  \<^item> In the cropping code the constant \<^verbatim>\<open>9/16\<close> is a binary fraction, and for frame
    sizes below \<open>2^48\<close> pixels every comparison and truncation gives the same integer in
    binary64 as in exact arithmetic; it is written with exact arithmetic.
  \<^item> In the transcription loop \<^verbatim>\<open>i / 1000\<close> and \<^verbatim>\<open>(i + chunk_duration) / 1000\<close>
    are whole numbers of seconds, which binary64 holds exactly, and
    \<^verbatim>\<open>len(audio) / 1000\<close> is the total duration that the specification calls \<open>D\<close>;
    they are written with exact arithmetic.

  Errors. A Python exception is a value of \<open>py_error\<close>; a call that may raise returns
  \<open>py_error + 'a\<close> with \<open>Inl\<close> for the exception.
\<close>

datatype py_error =
    ZeroDivisionError
  | AttributeError string
  | LibraryError string
  | WrappedException string py_error

text \<open>\<^verbatim>\<open>int(x)\<close> on a float truncates towards zero.\<close>

definition py_int :: "real \<Rightarrow> int" where
  "py_int x = (if 0 \<le> x then \<lfloor>x\<rfloor> else \<lceil>x\<rceil>)"

text \<open>\<^verbatim>\<open>a / b\<close> on two integers: true division, which raises on a zero divisor.\<close>

definition py_truediv :: "int \<Rightarrow> int \<Rightarrow> py_error + real" where
  "py_truediv a b = (if b = 0 then Inl ZeroDivisionError else Inr (real_of_int a / real_of_int b))"

text \<open>
  \<^verbatim>\<open>try: body except Exception as e: handler(e)\<close>, for a body that has already run
  to its result.
\<close>

definition try_except :: "py_error + 'a \<Rightarrow> (py_error \<Rightarrow> py_error + 'a) \<Rightarrow> py_error + 'a" where
  "try_except body handler = (case body of Inl e \<Rightarrow> handler e | Inr v \<Rightarrow> Inr v)"

section \<open>Binary64 subtraction\<close>

text \<open>
  \<^verbatim>\<open>x - y\<close> on two floats is the exact difference rounded to the nearest number with a
  significand of 53 bits, ties going to the even significand. \<open>exponent2 x\<close> is the binary
  exponent of a positive \<open>x\<close> (\<open>2 ^ e \<le> x < 2 ^ (e + 1)\<close>), found by halving or doubling;
  a number with that exponent is rounded to a multiple of \<open>2 ^ (e - 52)\<close>. The exponent is
  not bounded here: a difference of two floats that is too small for a normal number is a
  multiple of \<open>2 ^ (- 1074)\<close> and is not rounded at all, and a difference of two times of
  the same sign cannot overflow. Differences of whole numbers below \<open>2 ^ 53\<close> are exact,
  as they are for Python integers.
\<close>

function exponent2 :: "real \<Rightarrow> int" where
  "exponent2 x =
     (if 2 \<le> x then exponent2 (x / 2) + 1
      else if 0 < x \<and> x < 1 then exponent2 (2 * x) - 1
      else 0)"
  by pat_completeness auto
termination
proof (relation "measure (\<lambda>x. if 1 \<le> x then nat \<lfloor>x\<rfloor> else nat \<lceil>1 / x\<rceil>)")
  show "wf (measure (\<lambda>x::real. if 1 \<le> x then nat \<lfloor>x\<rfloor> else nat \<lceil>1 / x\<rceil>))"
    by simp
next
  fix x :: real
  assume x: "2 \<le> x"
  have "\<lfloor>x / 2\<rfloor> \<le> \<lfloor>x - 1\<rfloor>" using x by (intro floor_mono) simp
  then have "\<lfloor>x / 2\<rfloor> < \<lfloor>x\<rfloor>" by simp
  moreover have "0 < \<lfloor>x\<rfloor>" using x by simp
  ultimately show "(x / 2, x) \<in> measure (\<lambda>x. if 1 \<le> x then nat \<lfloor>x\<rfloor> else nat \<lceil>1 / x\<rceil>)"
    using x by simp
next
  fix x :: real
  assume x: "\<not> 2 \<le> x" "0 < x \<and> x < 1"
  have big: "2 \<le> \<lceil>1 / x\<rceil>"
  proof -
    have "1 < 1 / x" using x by simp
    then have "1 < \<lceil>1 / x\<rceil>" by (simp add: less_ceiling_iff)
    then show ?thesis by simp
  qed
  show "(2 * x, x) \<in> measure (\<lambda>x. if 1 \<le> x then nat \<lfloor>x\<rfloor> else nat \<lceil>1 / x\<rceil>)"
  proof (cases "1 \<le> 2 * x")
    case True
    have "\<lfloor>2 * x\<rfloor> = 1" using True x by (simp add: floor_eq_iff)
    then show ?thesis using True x big by simp
  next
    case False
    have "1 / (2 * x) \<le> 1 / x - 1" using False x by (simp add: field_simps)
    then have "\<lceil>1 / (2 * x)\<rceil> \<le> \<lceil>1 / x - 1\<rceil>" by (rule ceiling_mono)
    then have "\<lceil>1 / (2 * x)\<rceil> < \<lceil>1 / x\<rceil>" by simp
    then show ?thesis using False x big by simp
  qed
qed

declare exponent2.simps [simp del]

text \<open>Rounding to the nearest integer, a tie going to the even one.\<close>

definition round_half_even :: "real \<Rightarrow> int" where
  "round_half_even x =
     (let n = \<lfloor>x\<rfloor>; r = x - real_of_int n
      in if r < 1 / 2 then n else if 1 / 2 < r then n + 1 else if even n then n else n + 1)"

definition round_double :: "real \<Rightarrow> real" where
  "round_double x =
     (if x = 0 then 0
      else (let q = 2 powi (exponent2 \<bar>x\<bar> - 52)
            in sgn x * real_of_int (round_half_even (\<bar>x\<bar> / q)) * q))"

definition fsub :: "real \<Rightarrow> real \<Rightarrow> real" where
  "fsub x y = round_double (x - y)"

section \<open>Subtitle segments and their re-timing (\<^verbatim>\<open>save_clip\<close>, the list comprehension)\<close>

text \<open>A subtitle segment is the triple \<^verbatim>\<open>(start_time, end_time, text)\<close>.\<close>

type_synonym subtitle = "real \<times> real \<times> string"

text \<open>
  \<^verbatim>\<open>
  clip_subtitles = [
      (max(0, st - start_time), min(et - start_time, end_time - start_time), text)
      for st, et, text in subtitles
      if et > start_time and st < end_time
  ]
  \<close>
  The comprehension walks \<^verbatim>\<open>subtitles\<close> in order and appends one triple for each
  segment that passes the test.
\<close>

fun clip_subtitles :: "subtitle list \<Rightarrow> real \<Rightarrow> real \<Rightarrow> subtitle list" where
  "clip_subtitles [] start_time end_time = []"
| "clip_subtitles ((st, et, txt) # rest) start_time end_time =
     (if et > start_time \<and> st < end_time
      then (max 0 (fsub st start_time),
            min (fsub et start_time) (fsub end_time start_time), txt)
             # clip_subtitles rest start_time end_time
      else clip_subtitles rest start_time end_time)"

text \<open>
  The specification's words for the same step: a segment is selected when it overlaps
  the clip's range, and a selected segment is moved into clip-relative time. The
  subtractions are the program's.
\<close>

definition overlaps_clip :: "real \<Rightarrow> real \<Rightarrow> subtitle \<Rightarrow> bool" where
  "overlaps_clip clip_start clip_end seg =
     (case seg of (seg_start, seg_end, txt) \<Rightarrow> seg_end > clip_start \<and> seg_start < clip_end)"

definition retime :: "real \<Rightarrow> real \<Rightarrow> subtitle \<Rightarrow> subtitle" where
  "retime clip_start clip_end seg =
     (case seg of (seg_start, seg_end, txt) \<Rightarrow>
        (max 0 (fsub seg_start clip_start),
         min (fsub seg_end clip_start) (fsub clip_end clip_start), txt))"

section \<open>Clips, cropping and the vertical reframing (\<^verbatim>\<open>save_clip\<close>)\<close>

text \<open>
  The video library is external. A clip is what \<^verbatim>\<open>save_clip\<close> and
  \<^verbatim>\<open>apply_filter\<close> read and change of it: the frame size \<^verbatim>\<open>clip.w\<close>,
  \<^verbatim>\<open>clip.h\<close>, where the visible frame lies inside the decoded frame (moved by
  \<^verbatim>\<open>crop\<close>), the effects applied with \<^verbatim>\<open>clip.fx\<close>, and the text clips composed
  over it.
\<close>

text \<open>
  An effect applied with \<^verbatim>\<open>clip.fx(f, ...)\<close>: the name of the effect function and the
  arguments passed after it, positional or by keyword.
\<close>

datatype fx_arg = Positional real | Keyword string real

type_synonym applied_fx = "string \<times> fx_arg list"

record text_clip =
  caption :: string
  fontsize :: nat
  color :: string
  bg_color :: string
  font :: string
  box_width :: int
  layout :: string
  position :: "string \<times> string"
  t_start :: real
  t_end :: real

record clip =
  clip_w :: int
  clip_h :: int
  x_origin :: int
  y_origin :: int
  effects :: "applied_fx list"
  overlays :: "text_clip list"

text \<open>
  \<^verbatim>\<open>clip.crop(x1=, y1=, x2=, y2=)\<close> keeps the rectangle from \<open>(x1, y1)\<close> (top left)
  to \<open>(x2, y2)\<close> (bottom right) of the frame and does not scale.
\<close>

definition crop :: "clip \<Rightarrow> int \<Rightarrow> int \<Rightarrow> int \<Rightarrow> int \<Rightarrow> clip" where
  "crop c x1 y1 x2 y2 =
     c\<lparr>clip_w := x2 - x1, clip_h := y2 - y1,
       x_origin := x_origin c + x1, y_origin := y_origin c + y1\<rparr>"

text \<open>\<^verbatim>\<open>clip.fx(f, ...)\<close> applies one more effect.\<close>

definition fx :: "clip \<Rightarrow> string \<Rightarrow> fx_arg list \<Rightarrow> clip" where
  "fx c f args = c\<lparr>effects := effects c @ [(f, args)]\<rparr>"

text \<open>\<^verbatim>\<open>CompositeVideoClip([clip] + subtitle_clips)\<close>: the clip with the text clips over it.\<close>

definition CompositeVideoClip :: "clip \<Rightarrow> text_clip list \<Rightarrow> clip" where
  "CompositeVideoClip c subtitle_clips = c\<lparr>overlays := overlays c @ subtitle_clips\<rparr>"

text \<open>
  The body of \<^verbatim>\<open>if vertical:\<close> (lines 68 to 81).
  \<^verbatim>\<open>
  target_aspect_ratio = 9/16
  current_aspect_ratio = clip.w / clip.h
  if current_aspect_ratio > target_aspect_ratio:
      new_width = int(clip.h * target_aspect_ratio)
      crop_x1 = (clip.w - new_width) // 2
      clip = clip.crop(x1=crop_x1, y1=0, x2=crop_x1 + new_width, y2=clip.h)
  elif current_aspect_ratio < target_aspect_ratio:
      new_height = int(clip.w / target_aspect_ratio)
      crop_y1 = (clip.h - new_height) // 2
      clip = clip.crop(x1=0, y1=crop_y1, x2=clip.w, y2=crop_y1 + new_height)
  \<close>
\<close>

definition target_aspect_ratio :: real where
  "target_aspect_ratio = 9 / 16"

definition reframe_vertical :: "clip \<Rightarrow> py_error + clip" where
  "reframe_vertical c =
     (case py_truediv (clip_w c) (clip_h c) of
        Inl e \<Rightarrow> Inl e
      | Inr current_aspect_ratio \<Rightarrow>
          if current_aspect_ratio > target_aspect_ratio then
            (let new_width = py_int (real_of_int (clip_h c) * target_aspect_ratio);
                 crop_x1 = (clip_w c - new_width) div 2
             in Inr (crop c crop_x1 0 (crop_x1 + new_width) (clip_h c)))
          else if current_aspect_ratio < target_aspect_ratio then
            (let new_height = py_int (real_of_int (clip_w c) / target_aspect_ratio);
                 crop_y1 = (clip_h c - new_height) div 2
             in Inr (crop c 0 crop_y1 (clip_w c) (crop_y1 + new_height)))
          else Inr c)"

text \<open>
  \<^verbatim>\<open>TextClip(text, fontsize=24, color='white', bg_color='black', font='Arial',
  size=(clip.w, None), method='caption')\<close>, then
  \<^verbatim>\<open>.set_position(('center', 'bottom')).set_start(st).set_end(et)\<close>.
\<close>

definition subtitle_clip :: "clip \<Rightarrow> subtitle \<Rightarrow> text_clip" where
  "subtitle_clip c seg =
     (case seg of (st, et, txt) \<Rightarrow>
        \<lparr>caption = txt, fontsize = 24, color = ''white'', bg_color = ''black'',
         font = ''Arial'', box_width = clip_w c, layout = ''caption'',
         position = (''center'', ''bottom''), t_start = st, t_end = et\<rparr>)"

text \<open>
  What the functions ask of the video library: decoding a file, cutting a sub-range,
  encoding a file. Each may raise. A written file is the clip with the two codec names
  it was encoded with.
\<close>

record video_file =
  content :: clip
  codec :: string
  audio_codec :: string

record media_env =
  VideoFileClip :: "string \<Rightarrow> py_error + clip"
  subclip :: "clip \<Rightarrow> real \<Rightarrow> real \<Rightarrow> py_error + clip"
  write_videofile :: "string \<Rightarrow> video_file \<Rightarrow> py_error option"

text \<open>
  \<^verbatim>\<open>save_clip(video_path, start_time, end_time, output_path, subtitles, vertical=True)\<close>.
  The result is the exception raised, or the returned \<^verbatim>\<open>output_path\<close> with the file
  written there. \<^verbatim>\<open>if subtitles:\<close> is false for the empty list.
\<close>

definition save_clip_body ::
  "media_env \<Rightarrow> string \<Rightarrow> real \<Rightarrow> real \<Rightarrow> string \<Rightarrow> subtitle list \<Rightarrow> bool
     \<Rightarrow> py_error + string \<times> video_file" where
  "save_clip_body env video_path start_time end_time output_path subtitles vertical =
     (case VideoFileClip env video_path of
        Inl e \<Rightarrow> Inl e
      | Inr source \<Rightarrow>
     (case subclip env source start_time end_time of
        Inl e \<Rightarrow> Inl e
      | Inr clip0 \<Rightarrow>
     (case (if vertical then reframe_vertical clip0 else Inr clip0) of
        Inl e \<Rightarrow> Inl e
      | Inr clip1 \<Rightarrow>
          (let clip2 =
                 (if subtitles \<noteq> [] then
                    (let subtitle_clips =
                           map (subtitle_clip clip1) (clip_subtitles subtitles start_time end_time)
                     in if subtitle_clips \<noteq> [] then CompositeVideoClip clip1 subtitle_clips
                        else clip1)
                  else clip1);
               out = \<lparr>content = clip2, codec = ''libx264'', audio_codec = ''aac''\<rparr>
           in case write_videofile env output_path out of
                Some e \<Rightarrow> Inl e
              | None \<Rightarrow> Inr (output_path, out)))))"

definition save_clip ::
  "media_env \<Rightarrow> string \<Rightarrow> real \<Rightarrow> real \<Rightarrow> string \<Rightarrow> subtitle list \<Rightarrow> bool
     \<Rightarrow> py_error + string \<times> video_file" where
  "save_clip env video_path start_time end_time output_path subtitles vertical =
     try_except
       (save_clip_body env video_path start_time end_time output_path subtitles vertical)
       (\<lambda>e. Inl (WrappedException ''Error saving clip: '' e))"

section \<open>The filter dispatch (\<^verbatim>\<open>apply_filter\<close>)\<close>

text \<open>
  \<^verbatim>\<open>vfx\<close> is the effects module of the video library (\<^verbatim>\<open>moviepy.video.fx.all\<close> of
  moviepy 1.0, the release line that has \<^verbatim>\<open>moviepy.editor\<close>). These are its effect
  functions; reading any other attribute of the module raises \<^verbatim>\<open>AttributeError\<close>.
\<close>

definition vfx_names :: "string list" where
  "vfx_names =
     [''accel_decel'', ''blackwhite'', ''blink'', ''colorx'', ''crop'', ''even_size'',
      ''fadein'', ''fadeout'', ''freeze'', ''freeze_region'', ''gamma_corr'', ''headblur'',
      ''invert_colors'', ''loop'', ''lum_contrast'', ''make_loopable'', ''margin'',
      ''mask_and'', ''mask_color'', ''mask_or'', ''mirror_x'', ''mirror_y'', ''painting'',
      ''resize'', ''rotate'', ''scroll'', ''speedx'', ''supersample'', ''time_mirror'',
      ''time_symmetrize'']"

definition vfx :: "string \<Rightarrow> py_error + string" where
  "vfx name = (if name \<in> set vfx_names then Inr name else Inl (AttributeError name))"

text \<open>
  \<^verbatim>\<open>clip = clip.fx(vfx.name, ...)\<close>: the attribute is read first, then the effect is
  applied.
\<close>

definition fx_vfx :: "clip \<Rightarrow> string \<Rightarrow> fx_arg list \<Rightarrow> py_error + clip" where
  "fx_vfx c name args = (case vfx name of Inl e \<Rightarrow> Inl e | Inr f \<Rightarrow> Inr (fx c f args))"

text \<open>
  The \<^verbatim>\<open>if\<close>/\<^verbatim>\<open>elif\<close> chain of lines 125 to 138; it has no \<^verbatim>\<open>else\<close>.
  \<^verbatim>\<open>
  if filter_name == 'grayscale':
      clip = clip.fx(vfx.blackwhite)
  elif filter_name == 'bright':
      clip = clip.fx(vfx.colorx, 1.5)
  elif filter_name == 'dark':
      clip = clip.fx(vfx.colorx, 0.7)
  elif filter_name == 'contrast':
      clip = clip.fx(vfx.lum_contrast, contrast=1.5)
  elif filter_name == 'sepia':
      clip = clip.fx(vfx.sepia)
  elif filter_name == 'vignette':
      clip = clip.fx(vfx.vignette)
  elif filter_name == 'blur':
      clip = clip.fx(vfx.gaussian_blur, sigma=1)
  \<close>
\<close>

definition select_filter :: "clip \<Rightarrow> string \<Rightarrow> py_error + clip" where
  "select_filter c filter_name =
     (if filter_name = ''grayscale'' then fx_vfx c ''blackwhite'' []
      else if filter_name = ''bright'' then fx_vfx c ''colorx'' [Positional 1.5]
      else if filter_name = ''dark'' then fx_vfx c ''colorx'' [Positional 0.7]
      else if filter_name = ''contrast'' then fx_vfx c ''lum_contrast'' [Keyword ''contrast'' 1.5]
      else if filter_name = ''sepia'' then fx_vfx c ''sepia'' []
      else if filter_name = ''vignette'' then fx_vfx c ''vignette'' []
      else if filter_name = ''blur'' then fx_vfx c ''gaussian_blur'' [Keyword ''sigma'' 1]
      else Inr c)"

definition apply_filter_body ::
  "media_env \<Rightarrow> string \<Rightarrow> string \<Rightarrow> string \<Rightarrow> py_error + string \<times> video_file" where
  "apply_filter_body env input_path output_path filter_name =
     (case VideoFileClip env input_path of
        Inl e \<Rightarrow> Inl e
      | Inr c \<Rightarrow>
     (case select_filter c filter_name of
        Inl e \<Rightarrow> Inl e
      | Inr filtered \<Rightarrow>
          (let out = \<lparr>content = filtered, codec = ''libx264'', audio_codec = ''aac''\<rparr>
           in case write_videofile env output_path out of
                Some e \<Rightarrow> Inl e
              | None \<Rightarrow> Inr (output_path, out))))"

definition apply_filter ::
  "media_env \<Rightarrow> string \<Rightarrow> string \<Rightarrow> string \<Rightarrow> py_error + string \<times> video_file" where
  "apply_filter env input_path output_path filter_name =
     try_except (apply_filter_body env input_path output_path filter_name)
       (\<lambda>e. Inl (WrappedException ''Error applying filter: '' e))"

section \<open>Transcription (\<^verbatim>\<open>generate_subtitles\<close>)\<close>

text \<open>
  The audio library measures and slices audio in milliseconds: \<^verbatim>\<open>len(audio)\<close> is the
  length in milliseconds and \<^verbatim>\<open>audio[i:j]\<close> is the part from millisecond \<open>i\<close> to
  millisecond \<open>j\<close>, both cut off at the length. A chunk of the loaded audio is named by
  these two bounds.
\<close>

record AudioSegment =
  len_ms :: nat

type_synonym chunk = "nat \<times> nat"

definition slice :: "AudioSegment \<Rightarrow> nat \<Rightarrow> nat \<Rightarrow> chunk" where
  "slice audio i j = (min i (len_ms audio), min j (len_ms audio))"

text \<open>
  What the function asks of its libraries and of the operating system; each call may
  raise. \<open>record_source\<close> stands for opening the chunk file with \<^verbatim>\<open>sr.AudioFile\<close>
  and reading it with \<^verbatim>\<open>recognizer.record\<close>. \<open>py_print\<close> is the \<^verbatim>\<open>print\<close> of the
  handler, given the fixed prefix of the message and the exception whose text follows it:
  writing to the standard output raises when the output's encoding cannot encode the
  message.
\<close>

record speech_env =
  from_wav :: "string \<Rightarrow> py_error + AudioSegment"
  export :: "chunk \<Rightarrow> string \<Rightarrow> py_error option"
  record_source :: "string \<Rightarrow> py_error option"
  recognize_google :: "chunk \<Rightarrow> py_error + string"
  os_remove :: "string \<Rightarrow> py_error option"
  py_print :: "string \<Rightarrow> py_error \<Rightarrow> py_error option"

text \<open>
  The state outside the function: the files of the working directory, each chunk file
  with the chunk exported to it; the chunks sent to the recognition service, in order;
  and the lines printed, each the message's fixed prefix with the exception printed
  after it.
\<close>

record world =
  files :: "string \<rightharpoonup> chunk"
  requests :: "chunk list"
  printed :: "(string \<times> py_error) list"

text \<open>\<^verbatim>\<open>chunk_duration = 10000\<close>, in milliseconds.\<close>

definition chunk_duration :: nat where
  "chunk_duration = 10000"

text \<open>
  \<^verbatim>\<open>range(start, stop, step)\<close> for a positive step (the only call has step
  \<^verbatim>\<open>chunk_duration\<close>).
\<close>

function py_range :: "nat \<Rightarrow> nat \<Rightarrow> nat \<Rightarrow> nat list" where
  "py_range i stop step =
     (if 0 < step \<and> i < stop then i # py_range (i + step) stop step else [])"
  by pat_completeness auto
termination
  by (relation "measure (\<lambda>(i, stop, step). stop - i)") auto

declare py_range.simps [simp del]

text \<open>The decimal digits of a number, as an f-string writes them.\<close>

function str_nat :: "nat \<Rightarrow> string" where
  "str_nat n =
     (if n < 10 then [''0123456789'' ! n]
      else str_nat (n div 10) @ [''0123456789'' ! (n mod 10)])"
  by pat_completeness auto
termination
  by (relation "measure (\<lambda>n. n)") auto

declare str_nat.simps [simp del]

text \<open>\<^verbatim>\<open>chunk_file = f"temp_chunk_{i}.wav"\<close>\<close>

definition chunk_file :: "nat \<Rightarrow> string" where
  "chunk_file i = ''temp_chunk_'' @ str_nat i @ ''.wav''"

text \<open>
  One pass of the loop body (lines 37 to 53) for the window that starts at millisecond
  \<open>i\<close>. An exception of \<^verbatim>\<open>recognize_google\<close> is caught by the inner bare
  \<^verbatim>\<open>except\<close>; any other exception leaves the loop at once, with the world as it is
  at that moment.
  \<^verbatim>\<open>
  chunk = audio[i:i+chunk_duration]
  chunk_file = f"temp_chunk_{i}.wav"
  chunk.export(chunk_file, format="wav")
  with sr.AudioFile(chunk_file) as source:
      audio_data = recognizer.record(source)
      try:
          text = recognizer.recognize_google(audio_data)
          start_time = i / 1000
          end_time = min((i + chunk_duration) / 1000, len(audio) / 1000)
          subtitles.append((start_time, end_time, text))
      except:
          pass
  os.remove(chunk_file)
  \<close>
\<close>

definition process_chunk ::
  "speech_env \<Rightarrow> AudioSegment \<Rightarrow> nat \<Rightarrow> subtitle list \<Rightarrow> world
     \<Rightarrow> (py_error + subtitle list) \<times> world" where
  "process_chunk env audio i subtitles wd =
     (let piece = slice audio i (i + chunk_duration);
          name = chunk_file i
      in case export env piece name of
           Some e \<Rightarrow> (Inl e, wd)
         | None \<Rightarrow>
             (let wd1 = wd\<lparr>files := (files wd)(name \<mapsto> piece)\<rparr>
              in case record_source env name of
                   Some e \<Rightarrow> (Inl e, wd1)
                 | None \<Rightarrow>
                     (let wd2 = wd1\<lparr>requests := requests wd1 @ [piece]\<rparr>;
                          subtitles' =
                            (case recognize_google env piece of
                               Inr txt \<Rightarrow>
                                 (let start_time = real i / 1000;
                                      end_time = min (real (i + chunk_duration) / 1000)
                                                     (real (len_ms audio) / 1000)
                                  in subtitles @ [(start_time, end_time, txt)])
                             | Inl e \<Rightarrow> subtitles)
                      in case os_remove env name of
                           Some e \<Rightarrow> (Inl e, wd2)
                         | None \<Rightarrow> (Inr subtitles', wd2\<lparr>files := (files wd2)(name := None)\<rparr>))))"

text \<open>\<^verbatim>\<open>for i in range(0, len(audio), chunk_duration): ...\<close>\<close>

fun for_chunks ::
  "speech_env \<Rightarrow> AudioSegment \<Rightarrow> nat list \<Rightarrow> subtitle list \<Rightarrow> world
     \<Rightarrow> (py_error + subtitle list) \<times> world" where
  "for_chunks env audio [] subtitles wd = (Inr subtitles, wd)"
| "for_chunks env audio (i # rest) subtitles wd =
     (case process_chunk env audio i subtitles wd of
        (Inl e, wd') \<Rightarrow> (Inl e, wd')
      | (Inr subtitles', wd') \<Rightarrow> for_chunks env audio rest subtitles' wd')"

text \<open>The body of the outer \<^verbatim>\<open>try\<close> (lines 27 to 55).\<close>

definition generate_subtitles_body ::
  "speech_env \<Rightarrow> string \<Rightarrow> world \<Rightarrow> (py_error + subtitle list) \<times> world" where
  "generate_subtitles_body env audio_path wd =
     (case from_wav env audio_path of
        Inl e \<Rightarrow> (Inl e, wd)
      | Inr audio \<Rightarrow>
          for_chunks env audio (py_range 0 (len_ms audio) chunk_duration) [] wd)"

text \<open>
  \<^verbatim>\<open>generate_subtitles(audio_path)\<close>: the body, and the handler
  \<^verbatim>\<open>except Exception as e: print(f"Error generating subtitles: {str(e)}"); return []\<close>.
  An exception raised inside the handler is not caught by it and reaches the caller.
  Creating the recogniser object (\<^verbatim>\<open>sr.Recognizer()\<close>) has no effect that
  the function observes and is left out.
\<close>

definition generate_subtitles ::
  "speech_env \<Rightarrow> string \<Rightarrow> world \<Rightarrow> (py_error + subtitle list) \<times> world" where
  "generate_subtitles env audio_path wd =
     (case generate_subtitles_body env audio_path wd of
        (Inl e, wd') \<Rightarrow>
          (case py_print env ''Error generating subtitles: '' e of
             Some e' \<Rightarrow> (Inl e', wd')
           | None \<Rightarrow>
               (Inr [],
                wd'\<lparr>printed := printed wd' @ [(''Error generating subtitles: '', e)]\<rparr>))
      | (Inr subtitles, wd') \<Rightarrow> (Inr subtitles, wd'))"

text \<open>
  What the \<^verbatim>\<open>try\<close> block of one window appends to \<^verbatim>\<open>subtitles\<close>: one
  segment when recognition returns a transcript, nothing when it raises.
\<close>

definition appended :: "speech_env \<Rightarrow> AudioSegment \<Rightarrow> nat \<Rightarrow> subtitle list" where
  "appended env audio i =
     (case recognize_google env (slice audio i (i + chunk_duration)) of
        Inr txt \<Rightarrow> [(real i / 1000,
                    min (real (i + chunk_duration) / 1000) (real (len_ms audio) / 1000), txt)]
      | Inl e \<Rightarrow> [])"

section \<open>The specification's vocabulary\<close>

text \<open>
  The specification speaks of a total duration \<open>D\<close> in seconds and of windows numbered
  \<open>0, 1, 2, ...\<close>, each ten seconds long. These definitions follow its words; the theorems
  below compare them with what the loop of \<^verbatim>\<open>generate_subtitles\<close> computes.
\<close>

definition total_duration :: "AudioSegment \<Rightarrow> real" where
  "total_duration audio = real (len_ms audio) / 1000"

definition window_count :: "AudioSegment \<Rightarrow> nat" where
  "window_count audio = nat \<lceil>total_duration audio / 10\<rceil>"

definition window_chunk :: "AudioSegment \<Rightarrow> nat \<Rightarrow> chunk" where
  "window_chunk audio k = (k * 10000, min (k * 10000 + 10000) (len_ms audio))"

definition window_start :: "nat \<Rightarrow> real" where
  "window_start k = real k * 10"

definition window_end :: "AudioSegment \<Rightarrow> nat \<Rightarrow> real" where
  "window_end audio k = min (window_start k + 10) (total_duration audio)"

definition window_segment :: "speech_env \<Rightarrow> AudioSegment \<Rightarrow> nat \<Rightarrow> subtitle list" where
  "window_segment env audio k =
     (case recognize_google env (window_chunk audio k) of
        Inr txt \<Rightarrow> [(window_start k, window_end audio k, txt)]
      | Inl e \<Rightarrow> [])"

text \<open>
  The enumerated filter names of the specification.
\<close>

definition filter_names :: "string list" where
  "filter_names = [''grayscale'', ''bright'', ''dark'', ''contrast'', ''sepia'', ''vignette'', ''blur'']"

section \<open>Worked examples\<close>

text \<open>
  A world with no files. An audio of 25 seconds whose second window is not recognised. The
  same audio on a disk that fills up while the second chunk is exported. An audio whose
  exported chunk the recogniser's reader refuses (it accepts mono and stereo only).
\<close>

definition example_world :: world where
  "example_world = \<lparr>files = Map.empty, requests = [], printed = []\<rparr>"

definition example_speech_env :: speech_env where
  "example_speech_env =
     \<lparr>from_wav = (\<lambda>path. Inr \<lparr>len_ms = 25000\<rparr>),
      export = (\<lambda>piece name. None),
      record_source = (\<lambda>name. None),
      recognize_google = (\<lambda>piece. if piece = (10000, 20000)
                                   then Inl (LibraryError ''UnknownValueError'')
                                   else Inr ''hello''),
      os_remove = (\<lambda>name. None),
      py_print = (\<lambda>prefix e. None)\<rparr>"


definition surround_audio_env :: speech_env where
  "surround_audio_env =
     \<lparr>from_wav = (\<lambda>path. Inr \<lparr>len_ms = 5000\<rparr>),
      export = (\<lambda>piece name. None),
      record_source = (\<lambda>name. Some (LibraryError ''Audio must be mono or stereo'')),
      recognize_google = (\<lambda>piece. Inr ''hello''),
      os_remove = (\<lambda>name. None),
      py_print = (\<lambda>prefix e. None)\<rparr>"

text \<open>
  A 1920 by 1080 source, a video library whose calls all succeed, and the two files the
  functions write from it: the clip of seconds 8 to 20 with one caption, and the source
  darkened.
\<close>

definition example_clip :: clip where
  "example_clip = \<lparr>clip_w = 1920, clip_h = 1080, x_origin = 0, y_origin = 0,
                    effects = [], overlays = []\<rparr>"

definition example_media_env :: media_env where
  "example_media_env =
     \<lparr>VideoFileClip = (\<lambda>path. Inr example_clip),
      subclip = (\<lambda>c t_from t_to. Inr c),
      write_videofile = (\<lambda>path out. None)\<rparr>"

definition example_output :: video_file where
  "example_output =
     \<lparr>content =
        \<lparr>clip_w = 607, clip_h = 1080, x_origin = 656, y_origin = 0, effects = [],
         overlays = [\<lparr>caption = ''hi'', fontsize = 24, color = ''white'', bg_color = ''black'',
                      font = ''Arial'', box_width = 607, layout = ''caption'',
                      position = (''center'', ''bottom''), t_start = 0, t_end = 4\<rparr>]\<rparr>,
      codec = ''libx264'', audio_codec = ''aac''\<rparr>"

definition example_filtered :: video_file where
  "example_filtered =
     \<lparr>content = example_clip\<lparr>effects := [(''colorx'', [Positional 0.7])]\<rparr>,
      codec = ''libx264'', audio_codec = ''aac''\<rparr>"

text \<open>
  The subtitle segment and clip range at which rounding makes a caption's range empty
  (\<open>start_time = 1 + 2^-51\<close>, \<open>end_time = 1 + 3 * 2^-52\<close>, \<open>clip_start = 2^-53\<close>): the
  caption and the file that \<^verbatim>\<open>save_clip\<close> writes there.
\<close>

definition tie_caption :: text_clip where
  "tie_caption =
     \<lparr>caption = ''x'', fontsize = 24, color = ''white'', bg_color = ''black'',
      font = ''Arial'', box_width = 607, layout = ''caption'',
      position = (''center'', ''bottom''),
      t_start = 1 + 1 / 2 ^ 51, t_end = 1 + 1 / 2 ^ 51\<rparr>"

definition tie_output :: video_file where
  "tie_output =
     \<lparr>content = \<lparr>clip_w = 607, clip_h = 1080, x_origin = 656, y_origin = 0, effects = [],
                 overlays = [tie_caption]\<rparr>,
      codec = ''libx264'', audio_codec = ''aac''\<rparr>"


section \<open>Properties of binary64 subtraction\<close>

text \<open>
  The exponent found by \<open>exponent2\<close> is the binary exponent, rounding is monotone and keeps
  the sign, and so the rounded subtraction is monotone in its first argument and positive
  exactly when the exact difference is.
\<close>

lemma exponent2_bounds:
  "0 < x \<Longrightarrow> 2 powi (exponent2 x) \<le> x \<and> x < 2 powi (exponent2 x + 1)"
proof (induction x rule: exponent2.induct)
  case (1 x)
  show ?case
  proof (cases "2 \<le> x")
    case True
    then have e: "exponent2 x = exponent2 (x / 2) + 1"
      by (simp add: exponent2.simps [of x])
    have ih: "2 powi (exponent2 (x / 2)) \<le> x / 2 \<and> x / 2 < 2 powi (exponent2 (x / 2) + 1)"
      using 1(1) [OF True] True by simp
    have "(2::real) powi (exponent2 (x / 2) + 1) = 2 powi (exponent2 (x / 2)) * 2"
      and "(2::real) powi (exponent2 (x / 2) + 1 + 1) = 2 powi (exponent2 (x / 2) + 1) * 2"
      by (simp_all add: power_int_add)
    then show ?thesis unfolding e using ih by linarith
  next
    case False
    show ?thesis
    proof (cases "x < 1")
      case True
      then have e: "exponent2 x = exponent2 (2 * x) - 1"
        using False 1(3) by (simp add: exponent2.simps [of x])
      have ih: "2 powi (exponent2 (2 * x)) \<le> 2 * x \<and> 2 * x < 2 powi (exponent2 (2 * x) + 1)"
        using 1(2) [OF False] True 1(3) by simp
      have "(2::real) powi (exponent2 (2 * x)) = 2 powi (exponent2 (2 * x) - 1) * 2"
        and "(2::real) powi (exponent2 (2 * x) + 1) = 2 powi (exponent2 (2 * x) - 1 + 1) * 2"
        by (simp_all add: power_int_diff power_int_add)
      then show ?thesis unfolding e using ih by linarith
    next
      case ge: False
      then have "exponent2 x = 0" using False by (simp add: exponent2.simps [of x])
      then show ?thesis using False ge by simp
    qed
  qed
qed

lemma exponent2_mono:
  assumes "0 < x" "x \<le> y"
  shows "exponent2 x \<le> exponent2 y"
proof (rule ccontr)
  assume "\<not> exponent2 x \<le> exponent2 y"
  then have "exponent2 y + 1 \<le> exponent2 x" by simp
  then have "(2::real) powi (exponent2 y + 1) \<le> 2 powi (exponent2 x)"
    by (intro power_int_increasing) simp_all
  moreover have "2 powi (exponent2 x) \<le> x" using exponent2_bounds [OF assms(1)] by simp
  moreover have "y < 2 powi (exponent2 y + 1)" using exponent2_bounds [of y] assms by simp
  ultimately show False using assms(2) by linarith
qed

lemma round_half_even_bounds:
  "\<lfloor>x\<rfloor> \<le> round_half_even x \<and> round_half_even x \<le> \<lfloor>x\<rfloor> + 1"
  by (simp add: round_half_even_def Let_def)

lemma round_half_even_of_int: "round_half_even (real_of_int n) = n"
  by (simp add: round_half_even_def Let_def)

lemma round_half_even_mono:
  assumes "x \<le> y"
  shows "round_half_even x \<le> round_half_even y"
proof (cases "\<lfloor>x\<rfloor> = \<lfloor>y\<rfloor>")
  case True
  have "x - real_of_int \<lfloor>x\<rfloor> \<le> y - real_of_int \<lfloor>y\<rfloor>" using assms True by simp
  then show ?thesis
    unfolding round_half_even_def Let_def True by auto
next
  case False
  have "\<lfloor>x\<rfloor> \<le> \<lfloor>y\<rfloor>" using assms by (rule floor_mono)
  then have "\<lfloor>x\<rfloor> + 1 \<le> \<lfloor>y\<rfloor>" using False by simp
  then show ?thesis
    using round_half_even_bounds [of x] round_half_even_bounds [of y] by linarith
qed

lemma round_double_pos_bounds:
  assumes "0 < x"
  shows "2 powi (exponent2 x) \<le> round_double x \<and> round_double x \<le> 2 powi (exponent2 x + 1)"
proof -
  define e where "e = exponent2 x"
  define q :: real where "q = 2 powi (e - 52)"
  have q: "0 < q" by (simp add: q_def)
  have lo: "2 powi e \<le> x" and hi: "x < 2 powi (e + 1)"
    using exponent2_bounds [OF assms] by (simp_all add: e_def)
  have pe: "(2::real) powi e = 2 ^ 52 * q" and pe1: "(2::real) powi (e + 1) = 2 ^ 53 * q"
    by (simp_all add: q_def power_int_diff power_int_add)
  have "2 ^ 52 * q \<le> x" using lo unfolding pe .
  then have "real_of_int (2 ^ 52) \<le> x / q" using q by (simp add: field_simps)
  then have "round_half_even (real_of_int (2 ^ 52)) \<le> round_half_even (x / q)"
    by (rule round_half_even_mono)
  then have a: "2 ^ 52 \<le> round_half_even (x / q)"
    by (simp only: round_half_even_of_int)
  have "x < 2 ^ 53 * q" using hi unfolding pe1 .
  then have "x / q \<le> real_of_int (2 ^ 53)" using q by (simp add: field_simps)
  then have "round_half_even (x / q) \<le> round_half_even (real_of_int (2 ^ 53))"
    by (rule round_half_even_mono)
  then have b: "round_half_even (x / q) \<le> 2 ^ 53"
    by (simp only: round_half_even_of_int)
  have r: "round_double x = real_of_int (round_half_even (x / q)) * q"
    using assms by (simp add: round_double_def Let_def q_def e_def)
  have a': "real_of_int (2 ^ 52) \<le> real_of_int (round_half_even (x / q))"
    using a by (simp only: of_int_le_iff)
  have b': "real_of_int (round_half_even (x / q)) \<le> real_of_int (2 ^ 53)"
    using b by (simp only: of_int_le_iff)
  have q0: "0 \<le> q" using q by simp
  have "real_of_int (2 ^ 52) * q \<le> real_of_int (round_half_even (x / q)) * q"
    using a' q0 by (rule mult_right_mono)
  moreover have "real_of_int (round_half_even (x / q)) * q \<le> real_of_int (2 ^ 53) * q"
    using b' q0 by (rule mult_right_mono)
  ultimately show ?thesis unfolding r pe pe1 e_def [symmetric] by simp
qed

lemma round_double_pos: "0 < x \<Longrightarrow> 0 < round_double x"
proof -
  assume x: "0 < x"
  have "(0::real) < 2 powi (exponent2 x)" by simp
  then show ?thesis using round_double_pos_bounds [OF x] by linarith
qed

lemma round_double_minus: "round_double (- x) = - round_double x"
  by (simp add: round_double_def Let_def)

lemma round_double_mono_pos:
  assumes "0 < x" "x \<le> y"
  shows "round_double x \<le> round_double y"
proof (cases "exponent2 x = exponent2 y")
  case True
  define q :: real where "q = 2 powi (exponent2 y - 52)"
  have q: "0 < q" by (simp add: q_def)
  have y: "0 < y" using assms by simp
  have "x / q \<le> y / q" using assms q by (simp add: divide_right_mono)
  then have "round_half_even (x / q) \<le> round_half_even (y / q)"
    by (rule round_half_even_mono)
  then have "real_of_int (round_half_even (x / q)) * q \<le> real_of_int (round_half_even (y / q)) * q"
    using q by (intro mult_right_mono) simp_all
  then show ?thesis
    using assms(1) y by (simp add: round_double_def Let_def True q_def)
next
  case False
  then have "exponent2 x + 1 \<le> exponent2 y"
    using exponent2_mono [OF assms] by simp
  then have "(2::real) powi (exponent2 x + 1) \<le> 2 powi (exponent2 y)"
    by (intro power_int_increasing) simp_all
  moreover have "round_double x \<le> 2 powi (exponent2 x + 1)"
    using round_double_pos_bounds [OF assms(1)] by simp
  moreover have "2 powi (exponent2 y) \<le> round_double y"
    using round_double_pos_bounds [of y] assms by simp
  ultimately show ?thesis by linarith
qed

lemma round_double_mono:
  assumes "x \<le> y"
  shows "round_double x \<le> round_double y"
proof -
  consider (pos) "0 < x" | (neg) "y < 0" | (mid) "x \<le> 0" "0 \<le> y" by linarith
  then show ?thesis
  proof cases
    case pos
    then show ?thesis using assms by (rule round_double_mono_pos)
  next
    case neg
    have "round_double (- y) \<le> round_double (- x)"
      using neg assms by (intro round_double_mono_pos) simp_all
    then show ?thesis by (simp add: round_double_minus)
  next
    case mid
    have "round_double x \<le> 0"
    proof (cases "x = 0")
      case True
      then show ?thesis by (simp add: round_double_def)
    next
      case False
      then have "0 < round_double (- x)" using mid by (intro round_double_pos) simp
      then show ?thesis by (simp add: round_double_minus)
    qed
    moreover have "0 \<le> round_double y"
    proof (cases "y = 0")
      case True
      then show ?thesis by (simp add: round_double_def)
    next
      case False
      then have "0 < round_double y" using mid by (intro round_double_pos) simp
      then show ?thesis by simp
    qed
    ultimately show ?thesis by linarith
  qed
qed

lemma fsub_mono: "x \<le> y \<Longrightarrow> fsub x z \<le> fsub y z"
  unfolding fsub_def by (intro round_double_mono) simp

lemma fsub_pos: "y < x \<Longrightarrow> 0 < fsub x y"
  unfolding fsub_def by (intro round_double_pos) simp

lemma fsub_nonpos: "x \<le> y \<Longrightarrow> fsub x y \<le> 0"
  using round_double_mono [of "x - y" 0] by (simp add: fsub_def round_double_def)

lemmas eval_fsub = fsub_def round_double_def exponent2.simps round_half_even_def Let_def

lemma fsub_examples:
  "fsub 5 8 = - 3" "fsub 12 8 = 4" "fsub 20 8 = 12"
  by (simp_all add: eval_fsub)

lemma fsub_tie_examples:
  "fsub (1 + 1 / 2 ^ 51) (1 / 2 ^ 53) = 1 + 1 / 2 ^ 51"
  "fsub (1 + 3 / 2 ^ 52) (1 / 2 ^ 53) = 1 + 1 / 2 ^ 51"
  "fsub 20 (1 / 2 ^ 53) = 20"
  by (simp_all add: eval_fsub)

section \<open>What \<^verbatim>\<open>save_clip\<close> writes\<close>

lemma clip_subtitles_map_filter:
  "clip_subtitles subtitles s e = map (retime s e) (filter (overlaps_clip s e) subtitles)"
  by (induction subtitles s e rule: clip_subtitles.induct)
     (simp_all add: retime_def overlaps_clip_def)



lemma subtitle_clip_width:
  "clip_w a = clip_w b \<Longrightarrow> subtitle_clip a = subtitle_clip b"
  by (simp add: subtitle_clip_def fun_eq_iff)

lemma reframe_vertical_keeps:
  assumes "reframe_vertical c = Inr c'"
  shows "overlays c' = overlays c \<and> effects c' = effects c"
  using assms
  by (auto simp add: reframe_vertical_def crop_def Let_def split: sum.splits if_splits)

lemma try_except_Inr:
  "try_except body (\<lambda>e. Inl (h e)) = Inr v \<longleftrightarrow> body = Inr v"
  by (cases body) (simp_all add: try_except_def)

text \<open>
  A run of \<^verbatim>\<open>save_clip\<close> that returns has written the sub-range of the source, reframed
  when \<^verbatim>\<open>vertical\<close> is set, with one text clip added for each triple of the
  comprehension, in order.
\<close>

lemma save_clip_result:
  assumes "VideoFileClip env video_path = Inr source"
    and "subclip env source start_time end_time = Inr clip0"
    and "save_clip env video_path start_time end_time output_path subtitles vertical = Inr (p, out)"
  shows "\<exists>clip1. (if vertical then reframe_vertical clip0 else Inr clip0) = Inr clip1 \<and>
           content out =
             clip1\<lparr>overlays := overlays clip1 @
                map (subtitle_clip clip1) (clip_subtitles subtitles start_time end_time)\<rparr>"
proof -
  have body: "save_clip_body env video_path start_time end_time output_path subtitles vertical =
      Inr (p, out)"
    using assms(3) unfolding save_clip_def try_except_Inr .
  obtain clip1 where c1: "(if vertical then reframe_vertical clip0 else Inr clip0) = Inr clip1"
    using body assms(1,2)
    by (cases "if vertical then reframe_vertical clip0 else Inr clip0")
       (simp_all add: save_clip_body_def)
  define clip2 where "clip2 =
     (if subtitles \<noteq> [] then
        (let subtitle_clips =
               map (subtitle_clip clip1) (clip_subtitles subtitles start_time end_time)
         in if subtitle_clips \<noteq> [] then CompositeVideoClip clip1 subtitle_clips else clip1)
      else clip1)"
  have shape: "clip2 = clip1\<lparr>overlays := overlays clip1 @
                map (subtitle_clip clip1) (clip_subtitles subtitles start_time end_time)\<rparr>"
    by (cases subtitles) (simp_all add: clip2_def CompositeVideoClip_def Let_def)
  have unfolded: "save_clip_body env video_path start_time end_time output_path subtitles vertical =
     (case write_videofile env output_path
             \<lparr>content = clip2, codec = ''libx264'', audio_codec = ''aac''\<rparr> of
        Some e \<Rightarrow> Inl e
      | None \<Rightarrow> Inr (output_path, \<lparr>content = clip2, codec = ''libx264'', audio_codec = ''aac''\<rparr>))"
    unfolding save_clip_body_def clip2_def by (simp only: assms(1,2) c1 sum.case Let_def)
  have "content out = clip2"
    using body unfolding unfolded
    by (cases "write_videofile env output_path
             \<lparr>content = clip2, codec = ''libx264'', audio_codec = ''aac''\<rparr>") auto
  then show ?thesis using c1 shape by blast
qed

lemma save_clip_overlays:
  assumes "VideoFileClip env video_path = Inr source"
    and "subclip env source start_time end_time = Inr clip0"
    and "save_clip env video_path start_time end_time output_path subtitles vertical = Inr (p, out)"
  shows "overlays (content out) =
           overlays clip0 @
           map (subtitle_clip (content out)) (clip_subtitles subtitles start_time end_time)"
proof -
  from save_clip_result [OF assms] obtain clip1
    where c1: "(if vertical then reframe_vertical clip0 else Inr clip0) = Inr clip1"
      and out: "content out =
             clip1\<lparr>overlays := overlays clip1 @
                map (subtitle_clip clip1) (clip_subtitles subtitles start_time end_time)\<rparr>"
    by blast
  have "overlays clip1 = overlays clip0"
    using c1 reframe_vertical_keeps [of clip0 clip1] by (cases vertical) simp_all
  moreover have "subtitle_clip (content out) = subtitle_clip clip1"
    by (rule subtitle_clip_width) (simp add: out)
  ultimately show ?thesis by (simp add: out)
qed

lemma example_reframe:
  "reframe_vertical example_clip =
     Inr \<lparr>clip_w = 607, clip_h = 1080, x_origin = 656, y_origin = 0, effects = [], overlays = []\<rparr>"
  by (simp add: reframe_vertical_def py_truediv_def py_int_def target_aspect_ratio_def
      crop_def example_clip_def Let_def)

lemma example_save_clip:
  "save_clip example_media_env ''in.mp4'' 8 20 ''out.mp4'' [(5, 12, ''hi'')] True =
     Inr (''out.mp4'', example_output)"
  by (simp add: save_clip_def save_clip_body_def try_except_def example_media_env_def
      example_reframe subtitle_clip_def CompositeVideoClip_def example_output_def Let_def
      fsub_examples)


lemma tie_save_clip:
  "save_clip example_media_env ''in.mp4'' (1 / 2 ^ 53) 20 ''out.mp4''
      [(1 + 1 / 2 ^ 51, 1 + 3 / 2 ^ 52, ''x'')] True =
     Inr (''out.mp4'', tie_output)"
  by (simp add: save_clip_def save_clip_body_def try_except_def example_media_env_def
      example_reframe subtitle_clip_def CompositeVideoClip_def eval_fsub
      tie_output_def tie_caption_def)

section \<open>Properties of the caption selection\<close>





lemma clip_subtitles_member_range:
  assumes "\<forall>(start_time, end_time, txt) \<in> set subtitles. 0 \<le> start_time \<and> start_time < end_time"
    and "clip_start < clip_end"
    and "(rel_start, rel_end, txt) \<in> set (clip_subtitles subtitles clip_start clip_end)"
  shows "0 \<le> rel_start \<and> rel_start \<le> rel_end \<and> 0 < rel_end \<and>
         rel_end \<le> fsub clip_end clip_start \<and>
         ((\<forall>(start_time, end_time, txt) \<in> set subtitles.
              fsub start_time clip_start = start_time - clip_start \<and>
              fsub end_time clip_start = end_time - clip_start) \<and>
           fsub clip_end clip_start = clip_end - clip_start \<longrightarrow>
             rel_start < rel_end \<and> rel_end \<le> clip_end - clip_start)"
proof -
  from assms(3) obtain seg where seg: "seg \<in> set subtitles" "overlaps_clip clip_start clip_end seg"
    and r: "(rel_start, rel_end, txt) = retime clip_start clip_end seg"
    unfolding clip_subtitles_map_filter by auto
  obtain st et t where s: "seg = (st, et, t)" by (cases seg)
  have se: "0 \<le> st" "st < et" using assms(1) seg(1) s by auto
  have ov: "et > clip_start" "st < clip_end" using seg(2) s by (simp_all add: overlaps_clip_def)
  have rs: "rel_start = max 0 (fsub st clip_start)"
    and re: "rel_end = min (fsub et clip_start) (fsub clip_end clip_start)"
    using r s by (simp_all add: retime_def)
  have p1: "0 < fsub et clip_start" using ov(1) by (rule fsub_pos)
  have p2: "0 < fsub clip_end clip_start" using assms(2) by (rule fsub_pos)
  have m1: "fsub st clip_start \<le> fsub et clip_start" using se(2) by (intro fsub_mono) simp
  have m2: "fsub st clip_start \<le> fsub clip_end clip_start" using ov(2) by (intro fsub_mono) simp
  have general: "0 \<le> rel_start \<and> rel_start \<le> rel_end \<and> 0 < rel_end \<and>
         rel_end \<le> fsub clip_end clip_start"
    unfolding rs re using p1 p2 m1 m2 by (simp add: max_def min_def)
  have exact: "rel_start < rel_end \<and> rel_end \<le> clip_end - clip_start"
    if ex: "\<forall>(start_time, end_time, txt) \<in> set subtitles.
              fsub start_time clip_start = start_time - clip_start \<and>
              fsub end_time clip_start = end_time - clip_start"
      and d: "fsub clip_end clip_start = clip_end - clip_start"
  proof -
    have "fsub st clip_start = st - clip_start" "fsub et clip_start = et - clip_start"
      using ex seg(1) s by auto
    then show ?thesis
      unfolding rs re d using se ov assms(2) by (simp add: max_def min_def)
  qed
  show ?thesis using general exact by blast
qed

text \<open>
  Claim C9, as the code has it. In every run of \<^verbatim>\<open>save_clip\<close> that returns, when every
  input segment has \<open>0 \<le> start_time < end_time\<close> and the clip range has
  \<open>clip_start < clip_end\<close>, every caption added to the clip has
  \<open>0 \<le> rel_start \<le> rel_end\<close>, \<open>0 < rel_end\<close> and
  \<open>rel_end \<le> clip_end - clip_start\<close> as the program subtracts; and when the subtractions
  of the run are exact (whole-number times, for instance), \<open>rel_start < rel_end\<close> and
  \<open>rel_end \<le> clip_end - clip_start\<close>.
\<close>

theorem composer_caption_range:
  assumes "VideoFileClip env video_path = Inr source"
    and "subclip env source clip_start clip_end = Inr clip0"
    and "save_clip env video_path clip_start clip_end output_path subtitles vertical = Inr (p, out)"
    and "\<forall>(start_time, end_time, txt) \<in> set subtitles. 0 \<le> start_time \<and> start_time < end_time"
    and "clip_start < clip_end"
  shows "\<exists>added. overlays (content out) = overlays clip0 @ added \<and>
           (\<forall>tc \<in> set added.
              0 \<le> t_start tc \<and> t_start tc \<le> t_end tc \<and> 0 < t_end tc \<and>
              t_end tc \<le> fsub clip_end clip_start) \<and>
           ((\<forall>(start_time, end_time, txt) \<in> set subtitles.
                fsub start_time clip_start = start_time - clip_start \<and>
                fsub end_time clip_start = end_time - clip_start) \<and>
             fsub clip_end clip_start = clip_end - clip_start \<longrightarrow>
               (\<forall>tc \<in> set added.
                  t_start tc < t_end tc \<and> t_end tc \<le> clip_end - clip_start))"
proof -
  let ?added = "map (subtitle_clip (content out)) (clip_subtitles subtitles clip_start clip_end)"
  have ov: "overlays (content out) = overlays clip0 @ ?added"
    by (rule save_clip_overlays [OF assms(1-3)])
  have each: "0 \<le> t_start tc \<and> t_start tc \<le> t_end tc \<and> 0 < t_end tc \<and>
         t_end tc \<le> fsub clip_end clip_start \<and>
         ((\<forall>(start_time, end_time, txt) \<in> set subtitles.
              fsub start_time clip_start = start_time - clip_start \<and>
              fsub end_time clip_start = end_time - clip_start) \<and>
           fsub clip_end clip_start = clip_end - clip_start \<longrightarrow>
             t_start tc < t_end tc \<and> t_end tc \<le> clip_end - clip_start)"
    if "tc \<in> set ?added" for tc
  proof -
    from that obtain rel_start rel_end t
      where m: "(rel_start, rel_end, t) \<in> set (clip_subtitles subtitles clip_start clip_end)"
        and tc: "tc = subtitle_clip (content out) (rel_start, rel_end, t)"
      by auto
    have "t_start tc = rel_start" "t_end tc = rel_end"
      using tc by (simp_all add: subtitle_clip_def)
    then show ?thesis
      using clip_subtitles_member_range [OF assms(4) assms(5) m] by simp
  qed
  show ?thesis
    by (rule exI [of _ ?added]) (use ov each in blast)
qed

text \<open>
  The theorem at the segment \<open>(5, 12, "hi")\<close> and the clip range \<open>(8, 20)\<close>, where the
  subtractions are exact.
\<close>

theorem composer_caption_range_witness:
  "VideoFileClip example_media_env ''in.mp4'' = Inr example_clip \<and>
   subclip example_media_env example_clip 8 20 = Inr example_clip \<and>
   save_clip example_media_env ''in.mp4'' 8 20 ''out.mp4'' [(5, 12, ''hi'')] True =
     Inr (''out.mp4'', example_output) \<and>
   (0::real) \<le> 5 \<and> (5::real) < 12 \<and> (8::real) < 20 \<and>
   fsub 5 8 = 5 - 8 \<and> fsub 12 8 = 12 - 8 \<and> fsub 20 8 = 20 - 8 \<and>
   (\<exists>tc. overlays (content example_output) = overlays example_clip @ [tc] \<and>
         0 \<le> t_start tc \<and> t_start tc < t_end tc \<and> t_end tc \<le> 20 - 8)"
proof -
  have a: "VideoFileClip example_media_env ''in.mp4'' = Inr example_clip"
    and b: "subclip example_media_env example_clip 8 20 = Inr example_clip"
    by (simp_all add: example_media_env_def)
  have h: "\<forall>(start_time, end_time, txt) \<in> set [(5, 12, ''hi'')].
      (0::real) \<le> start_time \<and> start_time < end_time"
    by simp
  have d: "(8::real) < 20" by simp
  from composer_caption_range [OF a b example_save_clip h d]
  obtain added where ad: "overlays (content example_output) = overlays example_clip @ added"
    and ex: "\<forall>tc \<in> set added. t_start tc < t_end tc \<and> t_end tc \<le> 20 - 8"
    and ge: "\<forall>tc \<in> set added. 0 \<le> t_start tc"
    by (auto simp add: fsub_examples)
  have "added = overlays (content example_output)" using ad by (simp add: example_clip_def)
  then have "length added = 1" by (simp add: example_output_def)
  then obtain tc where "added = [tc]" by (cases added) auto
  then show ?thesis
    using ad ex ge a b example_save_clip by (auto simp add: fsub_examples)
qed

text \<open>
  The claim as stated, with \<open>rel_start < rel_end\<close> for all times, fails where two
  differences round to the same float: the segment from \<open>1 + 2^-51\<close> to
  \<open>1 + 3 * 2^-52\<close> in the clip range from \<open>2^-53\<close> to 20 gets a caption whose start and
  end are both \<open>1 + 2^-51\<close>.
\<close>

theorem caption_range_collapses:
  "save_clip example_media_env ''in.mp4'' (1 / 2 ^ 53) 20 ''out.mp4''
      [(1 + 1 / 2 ^ 51, 1 + 3 / 2 ^ 52, ''x'')] True = Inr (''out.mp4'', tie_output) \<and>
   (0::real) \<le> 1 + 1 / 2 ^ 51 \<and> (1 + 1 / 2 ^ 51 :: real) < 1 + 3 / 2 ^ 52 \<and>
   (1 / 2 ^ 53 :: real) < 20 \<and>
   tie_caption \<in> set (overlays (content tie_output)) \<and>
   t_start tie_caption = t_end tie_caption \<and>
   \<not> t_start tie_caption < t_end tie_caption"
  using tie_save_clip by (simp add: tie_output_def tie_caption_def)

section \<open>Properties of the vertical reframing\<close>







text \<open>
  A frame of height zero makes the division \<^verbatim>\<open>clip.w / clip.h\<close> raise.
\<close>

lemma reframe_vertical_zero_height:
  "clip_h c = 0 \<Longrightarrow> reframe_vertical c = Inl ZeroDivisionError"
  by (simp add: reframe_vertical_def py_truediv_def)




section \<open>Properties of the transcription loop\<close>

lemma py_range_unfold:
  "0 < step \<Longrightarrow> i < stop \<Longrightarrow> py_range i stop step = i # py_range (i + step) stop step"
  "\<not> i < stop \<Longrightarrow> py_range i stop step = []"
  by (simp_all add: py_range.simps)

lemma py_range_map_upt:
  "0 < step \<Longrightarrow>
   py_range i stop step = map (\<lambda>k. i + k * step) [0..<(stop - i + step - 1) div step]"
proof (induction i stop step rule: py_range.induct)
  case (1 i stop step)
  show ?case
  proof (cases "i < stop")
    case True
    have n: "(stop - i + step - 1) div step = Suc ((stop - (i + step) + step - 1) div step)"
    proof (cases "i + step \<le> stop")
      case True
      then have "stop - i + step - 1 = (stop - (i + step) + step - 1) + step"
        using 1(2) by simp
      then have "(stop - i + step - 1) div step = (stop - (i + step) + step - 1) div step + 1"
        using 1(2) by (simp only: div_add_self2)
      then show ?thesis by simp
    next
      case False
      then have "stop - (i + step) + step - 1 < step" using 1(2) by arith
      then have a: "(stop - (i + step) + step - 1) div step = 0" by (rule div_less)
      have "stop - i + step - 1 = (stop - i - 1) + step" using True by simp
      then have "(stop - i + step - 1) div step = (stop - i - 1) div step + 1"
        using 1(2) by (simp only: div_add_self2)
      moreover have "stop - i - 1 < step" using False True by arith
      then have "(stop - i - 1) div step = 0" by (rule div_less)
      ultimately show ?thesis using a by simp
    qed
    have "py_range i stop step = i # py_range (i + step) stop step"
      using True 1(2) by (simp add: py_range_unfold)
    also have "py_range (i + step) stop step =
        map (\<lambda>k. i + step + k * step) [0..<(stop - (i + step) + step - 1) div step]"
      using 1 True by simp
    also have "\<dots> = map (\<lambda>k. i + k * step) (map Suc [0..<(stop - (i + step) + step - 1) div step])"
      by simp
    finally show ?thesis
      unfolding n by (simp add: upt_conv_Cons map_Suc_upt del: upt_Suc)
  next
    case False
    then have "stop - i + step - 1 < step" using 1(2) by arith
    then have "(stop - i + step - 1) div step = 0" by (rule div_less)
    then show ?thesis using False by (simp add: py_range_unfold)
  qed
qed

lemma windows_upt:
  "py_range 0 L chunk_duration = map (\<lambda>k. k * 10000) [0..<(L + 9999) div 10000]"
  using py_range_map_upt [of chunk_duration 0 L] by (simp add: chunk_duration_def add.commute)

lemma window_count_ceiling:
  "int ((L + 9999) div 10000) = \<lceil>real L / 1000 / 10\<rceil>"
proof -
  have "- (real L / 1000 / 10) = real_of_int (- int L) / real_of_int 10000" by simp
  then have "\<lfloor>- (real L / 1000 / 10)\<rfloor> = (- int L) div 10000"
    by (simp only: floor_divide_of_int_eq)
  then have "\<lceil>real L / 1000 / 10\<rceil> = - ((- int L) div 10000)"
    by (simp only: ceiling_def)
  also have "\<dots> = (int L + 9999) div 10000" by linarith
  also have "\<dots> = int ((L + 9999) div 10000)" by (simp add: zdiv_int)
  finally show ?thesis by simp
qed

lemma window_count_eq: "window_count audio = (len_ms audio + 9999) div 10000"
  unfolding window_count_def total_duration_def
  using window_count_ceiling [of "len_ms audio"] by (metis nat_int)

lemma window_lt: "k < window_count audio \<Longrightarrow> k * 10000 < len_ms audio"
  unfolding window_count_eq by arith

lemma appended_window:
  assumes "k < window_count audio"
  shows "appended env audio (k * 10000) = window_segment env audio k"
proof -
  have "slice audio (k * 10000) (k * 10000 + chunk_duration) = window_chunk audio k"
    using window_lt [OF assms] by (simp add: slice_def window_chunk_def chunk_duration_def)
  moreover have "real (k * 10000) / 1000 = window_start k"
    by (simp add: window_start_def)
  moreover have "min (real (k * 10000 + chunk_duration) / 1000) (real (len_ms audio) / 1000) =
      window_end audio k"
    by (simp add: window_end_def window_start_def total_duration_def chunk_duration_def
        add_divide_distrib)
  ultimately show ?thesis
    by (simp add: appended_def window_segment_def split: sum.split)
qed

lemma slice_window:
  assumes "k < window_count audio"
  shows "slice audio (k * 10000) (k * 10000 + chunk_duration) = window_chunk audio k"
  using window_lt [OF assms] by (simp add: slice_def window_chunk_def chunk_duration_def)

lemma process_chunk_no_failure:
  assumes "export env (slice audio i (i + chunk_duration)) (chunk_file i) = None"
    and "record_source env (chunk_file i) = None"
    and "os_remove env (chunk_file i) = None"
  shows "process_chunk env audio i subtitles wd =
     (Inr (subtitles @ appended env audio i),
      wd\<lparr>files := (files wd)(chunk_file i := None),
         requests := requests wd @ [slice audio i (i + chunk_duration)]\<rparr>)"
  using assms
  by (simp add: process_chunk_def appended_def Let_def split: sum.split)

lemma for_chunks_no_failure:
  assumes "\<forall>i \<in> set starts.
      export env (slice audio i (i + chunk_duration)) (chunk_file i) = None \<and>
      record_source env (chunk_file i) = None \<and> os_remove env (chunk_file i) = None"
  shows "for_chunks env audio starts subtitles wd =
     (Inr (subtitles @ concat (map (appended env audio) starts)),
      wd\<lparr>files := (\<lambda>name. if name \<in> chunk_file ` set starts then None else files wd name),
         requests := requests wd @ map (\<lambda>i. slice audio i (i + chunk_duration)) starts\<rparr>)"
  using assms
proof (induction starts arbitrary: subtitles wd)
  case Nil
  then show ?case by simp
next
  case (Cons i rest)
  have step: "process_chunk env audio i subtitles wd =
     (Inr (subtitles @ appended env audio i),
      wd\<lparr>files := (files wd)(chunk_file i := None),
         requests := requests wd @ [slice audio i (i + chunk_duration)]\<rparr>)"
    using Cons.prems by (intro process_chunk_no_failure) simp_all
  have rest: "\<forall>i \<in> set rest.
      export env (slice audio i (i + chunk_duration)) (chunk_file i) = None \<and>
      record_source env (chunk_file i) = None \<and> os_remove env (chunk_file i) = None"
    using Cons.prems by simp
  show ?case
    by (simp add: step Cons.IH [OF rest] fun_eq_iff)
qed

lemma process_chunk_failure:
  assumes "export env (slice audio i (i + chunk_duration)) (chunk_file i) \<noteq> None \<or>
      record_source env (chunk_file i) \<noteq> None \<or> os_remove env (chunk_file i) \<noteq> None"
  shows "\<exists>e wd'. process_chunk env audio i subtitles wd = (Inl e, wd')"
  using assms
  by (auto simp add: process_chunk_def Let_def split: option.split sum.split)


lemma generate_subtitles_no_failure:
  assumes "from_wav env audio_path = Inr audio"
    and "\<forall>piece name. export env piece name = None"
    and "\<forall>name. record_source env name = None"
    and "\<forall>name. os_remove env name = None"
  shows "generate_subtitles env audio_path wd =
     (Inr (concat (map (window_segment env audio) [0..<window_count audio])),
      wd\<lparr>files := (\<lambda>name. if name \<in> (\<lambda>k. chunk_file (k * 10000)) ` {0..<window_count audio}
                           then None else files wd name),
         requests := requests wd @ map (window_chunk audio) [0..<window_count audio]\<rparr>)"
proof -
  let ?starts = "py_range 0 (len_ms audio) chunk_duration"
  have starts: "?starts = map (\<lambda>k. k * 10000) [0..<window_count audio]"
    by (simp add: windows_upt window_count_eq)
  have loop: "for_chunks env audio ?starts [] wd =
     (Inr ([] @ concat (map (appended env audio) ?starts)),
      wd\<lparr>files := (\<lambda>name. if name \<in> chunk_file ` set ?starts then None else files wd name),
         requests := requests wd @ map (\<lambda>i. slice audio i (i + chunk_duration)) ?starts\<rparr>)"
    by (rule for_chunks_no_failure) (simp add: assms)
  have a: "map (appended env audio) ?starts = map (window_segment env audio) [0..<window_count audio]"
    unfolding starts by (simp add: appended_window)
  have b: "map (\<lambda>i. slice audio i (i + chunk_duration)) ?starts =
      map (window_chunk audio) [0..<window_count audio]"
    unfolding starts by (simp add: slice_window)
  have c: "chunk_file ` set ?starts = (\<lambda>k. chunk_file (k * 10000)) ` {0..<window_count audio}"
    unfolding starts by (simp add: image_image)
  show ?thesis
    unfolding generate_subtitles_def generate_subtitles_body_def
    by (simp add: assms(1) loop a b c)
qed

lemma window_segment_sorted:
  "sorted_wrt (\<lambda>a b. fst a < fst b) (concat (map (window_segment env audio) [m..<n]))"
proof (induction n)
  case 0
  then show ?case by simp
next
  case (Suc n)
  show ?case
  proof (cases "m \<le> n")
    case True
    have "\<forall>a \<in> set (concat (map (window_segment env audio) [m..<n])). fst a < window_start n"
      by (auto simp add: window_segment_def window_start_def split: sum.splits)
    then show ?thesis
      using Suc True
      by (auto simp add: sorted_wrt_append window_segment_def split: sum.splits)
  next
    case False
    then show ?thesis by simp
  qed
qed

lemma last_window_end:
  assumes "0 < len_ms audio"
  shows "window_end audio (window_count audio - 1) = total_duration audio"
proof -
  have "len_ms audio \<le> (window_count audio - 1) * 10000 + 10000"
    unfolding window_count_eq using assms by arith
  then have "real (len_ms audio) \<le> real ((window_count audio - 1) * 10000 + 10000)"
    by (simp only: of_nat_le_iff)
  then show ?thesis
    by (simp add: window_end_def window_start_def total_duration_def min_def)
qed

lemmas eval_transcription =
  generate_subtitles_def generate_subtitles_body_def process_chunk_def slice_def
  chunk_file_def chunk_duration_def py_range.simps str_nat.simps Let_def

lemma example_run:
  "generate_subtitles example_speech_env ''audio.wav'' example_world =
     (Inr [(0, 10, ''hello''), (20, 25, ''hello'')],
      example_world\<lparr>requests := [(0, 10000), (10000, 20000), (20000, 25000)]\<rparr>)"
  by (simp add: eval_transcription example_speech_env_def example_world_def)


text \<open>
  Claim C4. For an audio of total duration \<open>D\<close> seconds, when no call but the recognition
  fails, the loop runs over the windows \<open>0, 1, ..., n - 1\<close> with \<open>n = ceiling (D / 10)\<close>: the
  loop variable takes the values \<open>k * 10000\<close>, the chunks sent to the recogniser are the
  contiguous windows \<open>[k * 10000, min (k * 10000 + 10000) (length in ms))\<close> in this order, a
  recognised window \<open>k\<close> gives the segment with \<open>start_time = k * 10\<close> and
  \<open>end_time = min (start_time + 10) D\<close>, the last window ends at \<open>D\<close>, and the returned
  segments have strictly increasing start times.
\<close>

theorem transcription_windows:
  assumes "from_wav env audio_path = Inr audio"
    and "\<forall>piece name. export env piece name = None"
    and "\<forall>name. record_source env name = None"
    and "\<forall>name. os_remove env name = None"
  shows "py_range 0 (len_ms audio) chunk_duration =
           map (\<lambda>k. k * 10000) [0..<window_count audio] \<and>
         requests (snd (generate_subtitles env audio_path wd)) =
           requests wd @ map (window_chunk audio) [0..<window_count audio] \<and>
         int (window_count audio) = \<lceil>total_duration audio / 10\<rceil> \<and>
         fst (generate_subtitles env audio_path wd) =
           Inr (concat (map (window_segment env audio) [0..<window_count audio])) \<and>
         (0 < len_ms audio \<longrightarrow>
            window_end audio (window_count audio - 1) = total_duration audio) \<and>
         sorted_wrt (\<lambda>a b. fst a < fst b)
           (concat (map (window_segment env audio) [0..<window_count audio]))"
proof -
  have "int (window_count audio) = \<lceil>total_duration audio / 10\<rceil>"
    unfolding window_count_eq total_duration_def by (rule window_count_ceiling)
  moreover have "py_range 0 (len_ms audio) chunk_duration =
      map (\<lambda>k. k * 10000) [0..<window_count audio]"
    by (simp add: windows_upt window_count_eq)
  ultimately show ?thesis
    using last_window_end [of audio] window_segment_sorted [of env audio 0 "window_count audio"]
    by (simp add: generate_subtitles_no_failure [OF assms])
qed

text \<open>
  The theorem at the audio of 25 seconds: three windows, the last one ending at second 25.
\<close>

theorem transcription_windows_witness:
  "from_wav example_speech_env ''audio.wav'' = Inr \<lparr>len_ms = 25000\<rparr> \<and>
   (\<forall>piece name. export example_speech_env piece name = None) \<and>
   (\<forall>name. record_source example_speech_env name = None) \<and>
   (\<forall>name. os_remove example_speech_env name = None) \<and>
   window_count \<lparr>len_ms = 25000\<rparr> = 3 \<and>
   py_range 0 25000 chunk_duration = [0, 10000, 20000] \<and>
   requests (snd (generate_subtitles example_speech_env ''audio.wav'' example_world)) =
     [(0, 10000), (10000, 20000), (20000, 25000)] \<and>
   fst (generate_subtitles example_speech_env ''audio.wav'' example_world) =
     Inr [(0, 10, ''hello''), (20, 25, ''hello'')] \<and>
   window_end \<lparr>len_ms = 25000\<rparr> (window_count \<lparr>len_ms = 25000\<rparr> - 1) = 25"
proof -
  have a: "from_wav example_speech_env ''audio.wav'' = Inr \<lparr>len_ms = 25000\<rparr>"
    and b: "\<forall>piece name. export example_speech_env piece name = None"
    and c: "\<forall>name. record_source example_speech_env name = None"
    and d: "\<forall>name. os_remove example_speech_env name = None"
    by (simp_all add: example_speech_env_def)
  have n: "window_count \<lparr>len_ms = 25000\<rparr> = 3" by (simp add: window_count_eq)
  have r: "py_range 0 25000 chunk_duration = [0, 10000, 20000]"
    by (simp add: py_range.simps chunk_duration_def)
  have w: "window_end \<lparr>len_ms = 25000\<rparr> (window_count \<lparr>len_ms = 25000\<rparr> - 1) = 25"
    using transcription_windows [OF a b c d, of example_world]
    by (simp add: n total_duration_def)
  show ?thesis
    using a b c d n r w by (simp add: example_run)
qed

text \<open>
  Claim C5. When no call but the recognition fails: an exception of the recogniser on a
  window leaves the segments collected so far as they are and the loop goes on, the failed
  window gives no segment and a recognised one gives its segment, every window is sent to the
  recogniser, the function returns the segments of the recognised windows in order and prints
  no error, and when the recogniser raises on every chunk the result is the empty list.
\<close>

theorem recognition_failure_skips_window:
  assumes "from_wav env audio_path = Inr audio"
    and "\<forall>piece name. export env piece name = None"
    and "\<forall>name. record_source env name = None"
    and "\<forall>name. os_remove env name = None"
  shows "(recognize_google env (slice audio i (i + chunk_duration)) = Inl e \<longrightarrow>
            fst (process_chunk env audio i collected w) = Inr collected) \<and>
         (recognize_google env (window_chunk audio k) = Inl e \<longrightarrow>
            window_segment env audio k = []) \<and>
         (recognize_google env (window_chunk audio k) = Inr words \<longrightarrow>
            window_segment env audio k = [(window_start k, window_end audio k, words)]) \<and>
         fst (generate_subtitles env audio_path wd) =
           Inr (concat (map (window_segment env audio) [0..<window_count audio])) \<and>
         requests (snd (generate_subtitles env audio_path wd)) =
           requests wd @ map (window_chunk audio) [0..<window_count audio] \<and>
         printed (snd (generate_subtitles env audio_path wd)) = printed wd \<and>
         ((\<forall>piece. \<exists>e. recognize_google env piece = Inl e) \<longrightarrow>
            fst (generate_subtitles env audio_path wd) = Inr [])"
proof -
  have step: "recognize_google env (slice audio i (i + chunk_duration)) = Inl e \<longrightarrow>
      fst (process_chunk env audio i collected w) = Inr collected"
  proof -
    have "export env (slice audio i (i + chunk_duration)) (chunk_file i) = None"
      and "record_source env (chunk_file i) = None"
      and "os_remove env (chunk_file i) = None"
      using assms(2-4) by blast+
    then show ?thesis
      by (simp add: process_chunk_no_failure appended_def)
  qed
  have none: "(\<forall>piece. \<exists>e. recognize_google env piece = Inl e) \<longrightarrow>
      concat (map (window_segment env audio) [0..<window_count audio]) = []"
  proof
    assume all: "\<forall>piece. \<exists>e. recognize_google env piece = Inl e"
    have "window_segment env audio j = []" for j
      using all [rule_format, of "window_chunk audio j"] by (auto simp add: window_segment_def)
    then show "concat (map (window_segment env audio) [0..<window_count audio]) = []"
      by simp
  qed
  show ?thesis
    using step none
    by (simp add: generate_subtitles_no_failure [OF assms] window_segment_def)
qed

text \<open>
  The theorem at the audio of 25 seconds whose second window is not recognised: the first
  and the third segment are returned and all three windows were sent.
\<close>

theorem recognition_failure_skips_window_witness:
  "from_wav example_speech_env ''audio.wav'' = Inr \<lparr>len_ms = 25000\<rparr> \<and>
   (\<forall>piece name. export example_speech_env piece name = None) \<and>
   (\<forall>name. record_source example_speech_env name = None) \<and>
   (\<forall>name. os_remove example_speech_env name = None) \<and>
   recognize_google example_speech_env (window_chunk \<lparr>len_ms = 25000\<rparr> 1) =
     Inl (LibraryError ''UnknownValueError'') \<and>
   window_segment example_speech_env \<lparr>len_ms = 25000\<rparr> 1 = [] \<and>
   fst (generate_subtitles example_speech_env ''audio.wav'' example_world) =
     Inr [(0, 10, ''hello''), (20, 25, ''hello'')] \<and>
   requests (snd (generate_subtitles example_speech_env ''audio.wav'' example_world)) =
     [(0, 10000), (10000, 20000), (20000, 25000)] \<and>
   printed (snd (generate_subtitles example_speech_env ''audio.wav'' example_world)) = []"
proof -
  have a: "from_wav example_speech_env ''audio.wav'' = Inr \<lparr>len_ms = 25000\<rparr>"
    and b: "\<forall>piece name. export example_speech_env piece name = None"
    and c: "\<forall>name. record_source example_speech_env name = None"
    and d: "\<forall>name. os_remove example_speech_env name = None"
    by (simp_all add: example_speech_env_def)
  have r: "recognize_google example_speech_env (window_chunk \<lparr>len_ms = 25000\<rparr> 1) =
     Inl (LibraryError ''UnknownValueError'')"
    by (simp add: example_speech_env_def window_chunk_def)
  have run: "fst (generate_subtitles example_speech_env ''audio.wav'' example_world) =
       Inr [(0, 10, ''hello''), (20, 25, ''hello'')]"
    "requests (snd (generate_subtitles example_speech_env ''audio.wav'' example_world)) =
       [(0, 10000), (10000, 20000), (20000, 25000)]"
    "printed (snd (generate_subtitles example_speech_env ''audio.wav'' example_world)) = []"
    by (simp_all add: example_run) (simp add: example_world_def)
  show ?thesis
    using recognition_failure_skips_window [OF a b c d,
        of 0 "LibraryError ''UnknownValueError''" "[]" example_world 1 "''''" example_world]
      a b c d r run
    by simp
qed




text \<open>
  Whenever the loop goes on to the next window, the chunk file of the window just processed
  has been removed, whether its recognition succeeded or raised.
\<close>

lemma chunk_file_removed_before_next_window:
  assumes "process_chunk env audio i subtitles wd = (Inr subtitles', wd')"
  shows "files wd' (chunk_file i) = None"
proof -
  have ok: "\<not> (export env (slice audio i (i + chunk_duration)) (chunk_file i) \<noteq> None \<or>
      record_source env (chunk_file i) \<noteq> None \<or> os_remove env (chunk_file i) \<noteq> None)"
  proof
    assume "export env (slice audio i (i + chunk_duration)) (chunk_file i) \<noteq> None \<or>
      record_source env (chunk_file i) \<noteq> None \<or> os_remove env (chunk_file i) \<noteq> None"
    from process_chunk_failure [OF this, of subtitles wd] show False
      using assms by simp
  qed
  have "process_chunk env audio i subtitles wd =
     (Inr (subtitles @ appended env audio i),
      wd\<lparr>files := (files wd)(chunk_file i := None),
         requests := requests wd @ [slice audio i (i + chunk_duration)]\<rparr>)"
    using ok by (intro process_chunk_no_failure) simp_all
  then show ?thesis using assms by auto
qed

text \<open>
  When no call but the recognition fails, no chunk file of the run is left.
\<close>

lemma chunk_files_removed_without_failure:
  assumes "from_wav env audio_path = Inr audio"
    and "\<forall>piece name. export env piece name = None"
    and "\<forall>name. record_source env name = None"
    and "\<forall>name. os_remove env name = None"
    and "k < window_count audio"
  shows "files (snd (generate_subtitles env audio_path wd)) (chunk_file (k * 10000)) = None"
  using assms(5) by (simp add: generate_subtitles_no_failure [OF assms(1-4)])

text \<open>
  Claim C6. The chunk file is removed by the last statement of the loop body, which is
  reached after a failed recognition but not after an exception of the reader: the audio whose
  chunk the reader refuses leaves \<^verbatim>\<open>temp_chunk_0.wav\<close> behind when the function returns.
\<close>

theorem chunk_file_left_behind:
  "generate_subtitles surround_audio_env ''audio.wav''
      \<lparr>files = Map.empty, requests = [], printed = []\<rparr> =
     (Inr [],
      \<lparr>files = [''temp_chunk_0.wav'' \<mapsto> (0, 5000)], requests = [],
       printed = [(''Error generating subtitles: '',
                   LibraryError ''Audio must be mono or stereo'')]\<rparr>)"
  by (simp add: eval_transcription surround_audio_env_def)

section \<open>Properties of the filter dispatch and of the written files\<close>

lemma vfx_present:
  "vfx ''blackwhite'' = Inr ''blackwhite''" "vfx ''colorx'' = Inr ''colorx''"
  "vfx ''lum_contrast'' = Inr ''lum_contrast''"
  by (simp_all add: vfx_def vfx_names_def)

lemma vfx_absent:
  "vfx ''sepia'' = Inl (AttributeError ''sepia'')"
  "vfx ''vignette'' = Inl (AttributeError ''vignette'')"
  "vfx ''gaussian_blur'' = Inl (AttributeError ''gaussian_blur'')"
  by (simp_all add: vfx_def vfx_names_def)

lemma select_filter_unknown:
  "filter_name \<notin> set filter_names \<Longrightarrow> select_filter c filter_name = Inr c"
  by (simp add: filter_names_def select_filter_def)

lemma select_filter_provided:
  "select_filter c ''grayscale'' = Inr (fx c ''blackwhite'' [])"
  "select_filter c ''bright'' = Inr (fx c ''colorx'' [Positional 1.5])"
  "select_filter c ''dark'' = Inr (fx c ''colorx'' [Positional 0.7])"
  "select_filter c ''contrast'' = Inr (fx c ''lum_contrast'' [Keyword ''contrast'' 1.5])"
  by (simp_all add: select_filter_def fx_vfx_def vfx_present)

lemma select_filter_missing:
  "select_filter c ''sepia'' = Inl (AttributeError ''sepia'')"
  "select_filter c ''vignette'' = Inl (AttributeError ''vignette'')"
  "select_filter c ''blur'' = Inl (AttributeError ''gaussian_blur'')"
  by (simp_all add: select_filter_def fx_vfx_def vfx_absent)

text \<open>
  What \<^verbatim>\<open>apply_filter\<close> does once the source is decoded: with a filter name that selects
  a clip it writes that clip and returns the output path (when the encoder does not raise);
  with one whose effect the module lacks it raises before anything is written.
\<close>

lemma apply_filter_selected:
  assumes "VideoFileClip env input_path = Inr c"
    and "select_filter c filter_name = Inr filtered"
    and "write_videofile env output_path
           \<lparr>content = filtered, codec = ''libx264'', audio_codec = ''aac''\<rparr> = None"
  shows "apply_filter env input_path output_path filter_name =
     Inr (output_path, \<lparr>content = filtered, codec = ''libx264'', audio_codec = ''aac''\<rparr>)"
  using assms by (simp add: apply_filter_def apply_filter_body_def try_except_def Let_def)

lemma apply_filter_unknown_passthrough:
  assumes "filter_name \<notin> set filter_names"
    and "VideoFileClip env input_path = Inr c"
    and "write_videofile env output_path
           \<lparr>content = c, codec = ''libx264'', audio_codec = ''aac''\<rparr> = None"
  shows "apply_filter env input_path output_path filter_name =
     Inr (output_path, \<lparr>content = c, codec = ''libx264'', audio_codec = ''aac''\<rparr>)"
  using assms(2) select_filter_unknown [OF assms(1)] assms(3) by (rule apply_filter_selected)

lemma apply_filter_missing_effect:
  assumes "VideoFileClip env input_path = Inr c"
    and "select_filter c filter_name = Inl e"
  shows "apply_filter env input_path output_path filter_name =
     Inl (WrappedException ''Error applying filter: '' e)"
  using assms by (simp add: apply_filter_def apply_filter_body_def try_except_def)

text \<open>
  Claim C7. The names \<^verbatim>\<open>sepia\<close>, \<^verbatim>\<open>vignette\<close> and \<^verbatim>\<open>blur\<close> of the enumerated
  set select \<^verbatim>\<open>vfx.sepia\<close>, \<^verbatim>\<open>vfx.vignette\<close> and \<^verbatim>\<open>vfx.gaussian_blur\<close>, which
  the effects module does not have: for a source that decodes, \<^verbatim>\<open>apply_filter\<close> raises
  "Error applying filter" and writes nothing, where the claim has one transform applied.
\<close>

theorem listed_filter_raises:
  "''sepia'' \<in> set filter_names \<and> ''vignette'' \<in> set filter_names \<and>
   ''blur'' \<in> set filter_names \<and>
   apply_filter example_media_env ''in.mp4'' ''out.mp4'' ''sepia'' =
     Inl (WrappedException ''Error applying filter: '' (AttributeError ''sepia'')) \<and>
   apply_filter example_media_env ''in.mp4'' ''out.mp4'' ''vignette'' =
     Inl (WrappedException ''Error applying filter: '' (AttributeError ''vignette'')) \<and>
   apply_filter example_media_env ''in.mp4'' ''out.mp4'' ''blur'' =
     Inl (WrappedException ''Error applying filter: '' (AttributeError ''gaussian_blur''))"
proof -
  have c: "VideoFileClip example_media_env ''in.mp4'' = Inr example_clip"
    by (simp add: example_media_env_def)
  show ?thesis
    by (simp add: filter_names_def apply_filter_missing_effect [OF c] select_filter_missing)
qed

lemma save_clip_body_written:
  assumes "save_clip_body env video_path start_time end_time output_path subtitles vertical = Inr (p, out)"
  shows "p = output_path \<and> codec out = ''libx264'' \<and> audio_codec out = ''aac'' \<and>
         write_videofile env output_path out = None"
proof -
  obtain source where s: "VideoFileClip env video_path = Inr source"
    using assms by (cases "VideoFileClip env video_path") (simp_all add: save_clip_body_def)
  obtain clip0 where c0: "subclip env source start_time end_time = Inr clip0"
    using assms s by (cases "subclip env source start_time end_time") (simp_all add: save_clip_body_def)
  obtain clip1 where c1: "(if vertical then reframe_vertical clip0 else Inr clip0) = Inr clip1"
    using assms s c0
    by (cases "if vertical then reframe_vertical clip0 else Inr clip0") (simp_all add: save_clip_body_def)
  define clip2 where "clip2 =
     (if subtitles \<noteq> [] then
        (let subtitle_clips =
               map (subtitle_clip clip1) (clip_subtitles subtitles start_time end_time)
         in if subtitle_clips \<noteq> [] then CompositeVideoClip clip1 subtitle_clips else clip1)
      else clip1)"
  have body: "save_clip_body env video_path start_time end_time output_path subtitles vertical =
     (case write_videofile env output_path
             \<lparr>content = clip2, codec = ''libx264'', audio_codec = ''aac''\<rparr> of
        Some e \<Rightarrow> Inl e
      | None \<Rightarrow> Inr (output_path, \<lparr>content = clip2, codec = ''libx264'', audio_codec = ''aac''\<rparr>))"
    unfolding save_clip_body_def clip2_def by (simp only: s c0 c1 sum.case Let_def)
  show ?thesis
    using assms unfolding body
    by (cases "write_videofile env output_path
             \<lparr>content = clip2, codec = ''libx264'', audio_codec = ''aac''\<rparr>") auto
qed

lemma apply_filter_body_written:
  assumes "apply_filter_body env input_path output_path filter_name = Inr (p, out)"
  shows "p = output_path \<and> codec out = ''libx264'' \<and> audio_codec out = ''aac'' \<and>
         write_videofile env output_path out = None"
proof -
  obtain c where c: "VideoFileClip env input_path = Inr c"
    using assms by (cases "VideoFileClip env input_path") (simp_all add: apply_filter_body_def)
  obtain filtered where f: "select_filter c filter_name = Inr filtered"
    using assms c by (cases "select_filter c filter_name") (simp_all add: apply_filter_body_def)
  have body: "apply_filter_body env input_path output_path filter_name =
     (case write_videofile env output_path
             \<lparr>content = filtered, codec = ''libx264'', audio_codec = ''aac''\<rparr> of
        Some e \<Rightarrow> Inl e
      | None \<Rightarrow> Inr (output_path, \<lparr>content = filtered, codec = ''libx264'',
                                 audio_codec = ''aac''\<rparr>))"
    unfolding apply_filter_body_def by (simp only: c f sum.case Let_def)
  show ?thesis
    using assms unfolding body
    by (cases "write_videofile env output_path
             \<lparr>content = filtered, codec = ''libx264'', audio_codec = ''aac''\<rparr>") auto
qed

lemma example_apply_filter:
  "apply_filter example_media_env ''in.mp4'' ''dark.mp4'' ''dark'' =
     Inr (''dark.mp4'', example_filtered)"
  by (simp add: apply_filter_def apply_filter_body_def try_except_def example_media_env_def
      select_filter_provided fx_def example_filtered_def example_clip_def Let_def)

text \<open>
  Claim C8. Whenever \<^verbatim>\<open>save_clip\<close> or \<^verbatim>\<open>apply_filter\<close> returns, it returns the
  output path, and the file written there was encoded with the video codec \<open>libx264\<close> and
  the audio codec \<open>aac\<close>, whatever the filter name and the vertical flag.
\<close>

theorem fixed_codec_pairing:
  "(save_clip env video_path start_time end_time output_path subtitles vertical = Inr (p, out)
      \<longrightarrow> p = output_path \<and> codec out = ''libx264'' \<and> audio_codec out = ''aac'' \<and>
          write_videofile env output_path out = None) \<and>
   (apply_filter env input_path filter_output filter_name = Inr (q, filtered)
      \<longrightarrow> q = filter_output \<and> codec filtered = ''libx264'' \<and> audio_codec filtered = ''aac'' \<and>
          write_videofile env filter_output filtered = None)"
  unfolding save_clip_def apply_filter_def try_except_Inr
  using save_clip_body_written apply_filter_body_written by blast

text \<open>
  The theorem at the clip of seconds 8 to 20 of the 1920 by 1080 source, vertical with one
  caption, and at the darkened source.
\<close>

theorem fixed_codec_pairing_witness:
  "save_clip example_media_env ''in.mp4'' 8 20 ''out.mp4'' [(5, 12, ''hi'')] True =
     Inr (''out.mp4'', example_output) \<and>
   codec example_output = ''libx264'' \<and> audio_codec example_output = ''aac'' \<and>
   apply_filter example_media_env ''in.mp4'' ''dark.mp4'' ''dark'' =
     Inr (''dark.mp4'', example_filtered) \<and>
   codec example_filtered = ''libx264'' \<and> audio_codec example_filtered = ''aac''"
  using fixed_codec_pairing [of example_media_env "''in.mp4''" 8 20 "''out.mp4''"
      "[(5, 12, ''hi'')]" True "''out.mp4''" example_output "''in.mp4''" "''dark.mp4''" "''dark''"
      "''dark.mp4''" example_filtered]
    example_save_clip example_apply_filter
  by simp

end
